theory Spec2Isabelle
  imports Complex_Main "HOL-Library.Multiset"
begin

chapter \<open>CryptoMentor: dashboard front end and confluence engine\<close>

text \<open>
  A shallow embedding of the TypeScript sources of the dashboard: the chart component,
  the WebSocket client and the trade views. JavaScript numbers that carry prices are
  reals, integer scores are integers, strings are HOL strings, \<open>null\<close> and
  \<open>undefined\<close> are \<open>None\<close>. Objects whose identity matters (the React state that
  holds a \<open>Set\<close>) live in an explicit store. The indicator engine and the confluence
  aggregator belong to the back end, whose code is not part of the sources; their
  sections say so and follow the specification instead.
\<close>

section \<open>Chart component: live tick update\<close>

text \<open>
  The bar the chart tracks in \<open>lastCandleRef\<close>:
  \<open>{ time: Time; open: number; high: number; low: number; close: number }\<close>.
\<close>

record candlestick =
  time :: real
  "open" :: real
  high :: real
  low :: real
  close :: real

text \<open>\<open>interface TickUpdate { price: number; timestamp: string }\<close>\<close>

record TickUpdate =
  price :: real
  timestamp :: string

text \<open>
  The two refs the tick effect reads. The candlestick series belongs to the charting
  library; the model keeps the bars handed to \<open>series.update\<close>, oldest first.
\<close>

record chart_refs =
  seriesRef :: "candlestick list option"
  lastCandleRef :: "candlestick option"

text \<open>The object literal \<open>updated\<close> of the live tick effect.\<close>

definition updated :: "candlestick \<Rightarrow> TickUpdate \<Rightarrow> candlestick" where
  "updated lc latestTick =
     \<lparr> time = time lc,
       open = open lc,
       high = max (high lc) (price latestTick),
       low = min (low lc) (price latestTick),
       close = price latestTick \<rparr>"

text \<open>
  The effect body: it returns at once when \<open>latestTick\<close>, \<open>seriesRef.current\<close> or
  \<open>lastCandleRef.current\<close> is missing; otherwise it passes \<open>updated\<close> to the series
  and stores it as the new tracked candle.
\<close>

definition tick_effect :: "TickUpdate option \<Rightarrow> chart_refs \<Rightarrow> chart_refs" where
  "tick_effect latestTick refs =
     (case latestTick of
        None \<Rightarrow> refs
      | Some tick \<Rightarrow>
          (case seriesRef refs of
             None \<Rightarrow> refs
           | Some series \<Rightarrow>
               (case lastCandleRef refs of
                  None \<Rightarrow> refs
                | Some lc \<Rightarrow>
                    refs\<lparr> seriesRef := Some (series @ [updated lc tick]),
                          lastCandleRef := Some (updated lc tick) \<rparr>)))"

text \<open>OHLC consistency of a bar: the low and the high enclose open and close.\<close>

definition ohlc_consistent :: "candlestick \<Rightarrow> bool" where
  "ohlc_consistent c =
     (low c \<le> min (open c) (close c) \<and> max (open c) (close c) \<le> high c)"

section \<open>Chart component: the set of active overlays\<close>

text \<open>
  A JavaScript \<open>Set\<close> keeps its members in insertion order without repetition; the
  model is the list of members in that order.
\<close>

type_synonym 'k js_set = "'k list"

definition has :: "'k js_set \<Rightarrow> 'k \<Rightarrow> bool" where
  "has s key = (key \<in> set s)"

definition add :: "'k js_set \<Rightarrow> 'k \<Rightarrow> 'k js_set" where
  "add s key = (if key \<in> set s then s else s @ [key])"

definition delete :: "'k js_set \<Rightarrow> 'k \<Rightarrow> 'k js_set" where
  "delete s key = filter (\<lambda>x. x \<noteq> key) s"

text \<open>
  The store of \<open>Set\<close> objects: \<open>cells\<close> maps an address to the object's members,
  \<open>next_addr\<close> is the next free address. A React state value is an address.
\<close>

record 'k store =
  cells :: "nat \<rightharpoonup> 'k js_set"
  next_addr :: nat

text \<open>\<open>new Set(prev)\<close>: a fresh object with the members of \<open>prev\<close>.\<close>

definition new_Set :: "'k store \<Rightarrow> 'k js_set \<Rightarrow> 'k store \<times> nat" where
  "new_Set st members =
     (st\<lparr> cells := (cells st)(next_addr st \<mapsto> members), next_addr := Suc (next_addr st) \<rparr>,
      next_addr st)"

definition members_of :: "'k store \<Rightarrow> nat \<Rightarrow> 'k js_set" where
  "members_of st a = (case cells st a of None \<Rightarrow> [] | Some s \<Rightarrow> s)"

text \<open>
  The updater of \<open>toggleOverlay\<close>: copy \<open>prev\<close>, then delete the key from the copy
  when the copy has it and add it otherwise; the copy is returned.
\<close>

definition toggleOverlay :: "'k \<Rightarrow> 'k store \<times> nat \<Rightarrow> 'k store \<times> nat" where
  "toggleOverlay key state =
     (let (st, prev) = state;
          (st1, next) = new_Set st (members_of st prev);
          s = members_of st1 next;
          s' = (if has s key then delete s key else add s key)
      in (st1\<lparr> cells := (cells st1)(next \<mapsto> s') \<rparr>, next))"

text \<open>
  The updater of \<open>ensureOverlay\<close>: \<open>prev\<close> itself is returned when it has the key;
  otherwise a copy with the key added.
\<close>

definition ensureOverlay :: "'k \<Rightarrow> 'k store \<times> nat \<Rightarrow> 'k store \<times> nat" where
  "ensureOverlay key state =
     (let (st, prev) = state in
      if has (members_of st prev) key then (st, prev)
      else (let (st1, next) = new_Set st (members_of st prev)
            in (st1\<lparr> cells := (cells st1)(next \<mapsto> add (members_of st1 next) key) \<rparr>, next)))"

text \<open>The members of the \<open>Set\<close> a state value points to, as a mathematical set.\<close>

definition active :: "'k store \<times> nat \<Rightarrow> 'k set" where
  "active state = set (members_of (fst state) (snd state))"

section \<open>JavaScript exceptions\<close>

text \<open>
  The exceptions the embedded code can raise: \<open>SyntaxError\<close> from \<open>JSON.parse\<close>,
  \<open>TypeError\<close> from reading a property or an element of \<open>null\<close> or \<open>undefined\<close>,
  and \<open>Thrown\<close> for whatever a callback throws.
\<close>

datatype js_error = SyntaxError | TypeError | Thrown

section \<open>Chart component: indicator overlay lines\<close>

text \<open>
  \<open>interface Overlays\<close> gives every indicator series the type \<open>(number | null)[]\<close>.
  Reading \<open>values[i]\<close> of an array never throws in JavaScript: past the end of the
  array the result is \<open>undefined\<close>. \<open>null\<close> and \<open>undefined\<close> entries are both
  \<open>None\<close> here, as the loop of \<open>addLine\<close> treats them alike.
\<close>

definition index :: "'a option list \<Rightarrow> nat \<Rightarrow> 'a option" where
  "index values i = (if i < length values then values ! i else None)"

text \<open>\<open>LineData\<close>: a pair \<open>{ time, value }\<close>.\<close>

type_synonym LineData = "real \<times> real"

text \<open>
  The \<open>for\<close> loop of \<open>addLine\<close> over \<open>i = 0 .. timestamps.length - 1\<close>: a point is
  pushed when \<open>values[i]\<close> is neither \<open>null\<close> nor \<open>undefined\<close>. The dashboard hands
  the back end's payload to the chart through a type cast, so at run time a series may
  be missing altogether: the argument \<open>values\<close> is \<open>None\<close> then, and the first read
  \<open>values[i]\<close> throws a \<open>TypeError\<close>, which nothing in the chart catches. The result
  is the exception, or the points collected.
\<close>

function addLine_loop ::
  "real list \<Rightarrow> real option list option \<Rightarrow> nat \<Rightarrow> LineData list \<Rightarrow> js_error + LineData list" where
  "addLine_loop timestamps values i points =
     (if i < length timestamps then
        (case values of
           None \<Rightarrow> Inl TypeError
         | Some vs \<Rightarrow>
             addLine_loop timestamps values (i + 1)
               (case index vs i of
                  Some v \<Rightarrow> points @ [(timestamps ! i, v)]
                | None \<Rightarrow> points))
      else Inr points)"
  by pat_completeness auto
termination
  by (relation "measure (\<lambda>(timestamps, values, i, points). length timestamps - i)") auto

declare addLine_loop.simps [simp del]

datatype LineStyle = Solid | Dotted | Dashed

text \<open>A line series of the chart: the options it was created with and the data set on it.\<close>

record LineSeries =
  color :: string
  lineWidth :: nat
  lineStyle :: LineStyle
  line_data :: "LineData list"

text \<open>
  \<open>addLine\<close>: collect the points; with no point, return without creating a series;
  otherwise create the series, set its data and record it in \<open>lineSeriesRefs\<close> under
  the key. The result is the exception that leaves the function, or \<open>lineSeriesRefs\<close>
  after the call.
\<close>

definition addLine ::
  "real list \<Rightarrow> (string \<rightharpoonup> LineSeries) \<Rightarrow> string \<Rightarrow> real option list option \<Rightarrow> string \<Rightarrow> nat
     \<Rightarrow> LineStyle \<Rightarrow> js_error + (string \<rightharpoonup> LineSeries)" where
  "addLine timestamps lineSeriesRefs key values col width style =
     (case addLine_loop timestamps values 0 [] of
        Inl e \<Rightarrow> Inl e
      | Inr points \<Rightarrow>
          Inr (if length points = 0 then lineSeriesRefs
               else lineSeriesRefs(key \<mapsto>
                      \<lparr> color = col, lineWidth = width, lineStyle = style, line_data = points \<rparr>)))"

section \<open>Indicator engine\<close>

text \<open>
  The IndicatorEngine is part of the back end, whose code is not among the sources. The
  definitions of this section follow the data model and section 4.1 of the
  specification.
\<close>

text \<open>
  Modelled from the spec: the fixed indicator set of an IndicatorSet, rsi(14),
  macd / macd_signal / macd_histogram (12,26,9), adx(14), ema_9/21/50/200 and
  bb_upper/middle/lower (20). The engine that computes them is missing from the sources.
\<close>

datatype indicator =
  RSI | MACD | MACD_SIGNAL | MACD_HISTOGRAM | ADX
  | EMA_9 | EMA_21 | EMA_50 | EMA_200
  | BB_UPPER | BB_MIDDLE | BB_LOWER




section \<open>WebSocket client\<close>

text \<open>
  The value \<open>JSON.parse\<close> returns. An object is the list of its members (each key
  once); numbers are reals.
\<close>

datatype json =
  JNull | JBool bool | JNum real | JStr string | JArr "json list"
  | JObj "(string \<times> json) list"

text \<open>
  \<open>type EventCallback = (data: unknown) => void\<close>. A callback is a function object;
  the client compares callbacks by identity and calls them. The model keeps the
  identity (a number) and what a call does as far as the dispatch loop can tell: it
  returns, or it throws.
\<close>

datatype callback = Returning nat | Throwing nat

fun call :: "callback \<Rightarrow> json option \<Rightarrow> js_error option" where
  "call (Returning i) payload = None"
| "call (Throwing i) payload = Some Thrown"

text \<open>
  \<open>class WSClient\<close>: the fields \<open>url\<close> and \<open>listeners\<close>. The socket and the
  reconnect timer are left out: \<open>on\<close>, \<open>off\<close> and the message handler neither read
  nor write them, and \<open>connect\<close> and \<open>disconnect\<close> do not touch \<open>listeners\<close>.
\<close>

record 'cb WSClient =
  url :: string
  listeners :: "string \<rightharpoonup> 'cb list"

definition new_WSClient :: "string \<Rightarrow> 'cb WSClient" where
  "new_WSClient u = \<lparr> url = u, listeners = Map.empty \<rparr>"

text \<open>\<open>this.listeners.get(event) || []\<close>\<close>

definition existing :: "'cb WSClient \<Rightarrow> string \<Rightarrow> 'cb list" where
  "existing c event = (case listeners c event of None \<Rightarrow> [] | Some cbs \<Rightarrow> cbs)"

definition on :: "'cb WSClient \<Rightarrow> string \<Rightarrow> 'cb \<Rightarrow> 'cb WSClient" where
  "on c event cb = c\<lparr> listeners := (listeners c)(event \<mapsto> existing c event @ [cb]) \<rparr>"

definition off :: "'cb WSClient \<Rightarrow> string \<Rightarrow> 'cb \<Rightarrow> 'cb WSClient" where
  "off c event cb =
     c\<lparr> listeners := (listeners c)(event \<mapsto> filter (\<lambda>x. x \<noteq> cb) (existing c event)) \<rparr>"

text \<open>
  Property access \<open>msg.event\<close> and \<open>msg.data\<close> on a parsed value: a \<open>TypeError\<close> on
  \<open>null\<close>, the member (or \<open>undefined\<close>) on an object, \<open>undefined\<close> on a number, a
  boolean, a string or an array (none of which has a property of either name).
\<close>

fun property :: "json \<Rightarrow> string \<Rightarrow> js_error + json option" where
  "property JNull key = Inl TypeError"
| "property (JObj members) key = Inr (map_of members key)"
| "property _ key = Inr None"

text \<open>
  \<open>callbacks.forEach((cb) => cb(msg.data))\<close>: the calls made, in order, and the
  exception that ended the loop, if any. A throwing callback ends the loop.
\<close>

fun forEach :: "callback list \<Rightarrow> json option \<Rightarrow> (callback \<times> json option) list \<times> js_error option" where
  "forEach [] payload = ([], None)"
| "forEach (cb # cbs) payload =
     (case call cb payload of
        Some e \<Rightarrow> ([(cb, payload)], Some e)
      | None \<Rightarrow> (let (calls, r) = forEach cbs payload in ((cb, payload) # calls, r)))"

text \<open>
  The \<open>try\<close> block of \<open>ws.onmessage\<close>. Its input is the outcome of
  \<open>JSON.parse(event.data)\<close>: \<open>None\<close> when the parser throws. A \<open>Map\<close> keyed by
  strings has no entry for an event that is not a string.
\<close>

definition try_block ::
  "callback WSClient \<Rightarrow> json option \<Rightarrow> (callback \<times> json option) list \<times> js_error option" where
  "try_block c parsed =
     (case parsed of
        None \<Rightarrow> ([], Some SyntaxError)
      | Some msg \<Rightarrow>
          (case property msg ''event'' of
             Inl e \<Rightarrow> ([], Some e)
           | Inr ev \<Rightarrow>
               (let callbacks = (case ev of Some (JStr name) \<Rightarrow> existing c name | _ \<Rightarrow> [])
                in case property msg ''data'' of
                     Inl e \<Rightarrow> ([], Some e)
                   | Inr payload \<Rightarrow> forEach callbacks payload)))"

text \<open>
  \<open>ws.onmessage\<close>: the \<open>try\<close> block with its empty \<open>catch\<close>. The result is the
  calls made and the exception that leaves the handler.
\<close>

definition onmessage ::
  "callback WSClient \<Rightarrow> json option \<Rightarrow> (callback \<times> json option) list \<times> js_error option" where
  "onmessage c parsed = (case try_block c parsed of (calls, _) \<Rightarrow> (calls, None))"

text \<open>
  The dashboard's effect, as far as the listeners go: it registers two arrow functions,
  each of which calls the asynchronous \<open>loadData\<close> and returns. The \<open>n\<close>-th run of
  the effect creates the function objects \<open>2 * n\<close> and \<open>2 * n + 1\<close>. The other
  statements of the effect (\<open>loadData()\<close>, \<open>wsClient.connect()\<close>, \<open>setInterval\<close>) do
  not touch the listeners. The effect runs again whenever the time frame changes; its
  clean-up calls \<open>disconnect\<close>, not \<open>off\<close>.
\<close>

definition Dashboard_effect :: "nat \<Rightarrow> callback WSClient \<Rightarrow> callback WSClient" where
  "Dashboard_effect n c =
     on (on c ''price_update'' (Returning (2 * n))) ''new_trade'' (Returning (2 * n + 1))"

fun Dashboard_runs :: "nat \<Rightarrow> callback WSClient \<Rightarrow> callback WSClient" where
  "Dashboard_runs 0 c = c"
| "Dashboard_runs (Suc n) c = Dashboard_effect n (Dashboard_runs n c)"

section \<open>Trade views: the confluence score\<close>

text \<open>
  \<open>interface Trade\<close> of the trade log. The field \<open>id\<close> is \<open>trade_id\<close> here.
  \<open>confluence_score\<close> is an integer.
\<close>

record Trade =
  trade_id :: int
  pair :: string
  side :: string
  entry_price :: real
  exit_price :: "real option"
  status :: string
  pnl :: "real option"
  pnl_percent :: "real option"
  strategy :: string
  confluence_score :: int
  created_at :: string

text \<open>How JSX renders an integer: its decimal digits, with a minus sign when negative.\<close>

fun digits :: "nat \<Rightarrow> string" where
  "digits n =
     (if n < 10 then [''0123456789'' ! n]
      else digits (n div 10) @ [''0123456789'' ! (n mod 10)])"

declare digits.simps [simp del]

definition render_number :: "int \<Rightarrow> string" where
  "render_number n = (if n < 0 then CHR ''-'' # digits (nat (- n)) else digits (nat n))"

text \<open>A rendered element: its class attribute and its text content.\<close>

record element =
  className :: string
  children :: string

definition colors :: "string list" where
  "colors =
     [ [],
       ''bg-red-500/20 text-red-400'',
       ''bg-yellow-500/20 text-yellow-400'',
       ''bg-blue-500/20 text-blue-400'',
       ''bg-green-500/20 text-green-400'',
       ''bg-purple-500/20 text-purple-400'' ]"

text \<open>
  \<open>colors[score] || colors[1]\<close>: the entry at \<open>score\<close> unless it is missing or the
  empty string.
\<close>

definition badge_color :: "int \<Rightarrow> string" where
  "badge_color score =
     (if 0 \<le> score \<and> nat score < length colors \<and> colors ! nat score \<noteq> []
      then colors ! nat score else colors ! 1)"

text \<open>\<open>function ConfidenceBadge({ score })\<close> of the trade log.\<close>

definition ConfidenceBadge :: "int \<Rightarrow> element" where
  "ConfidenceBadge score =
     \<lparr> className = ''px-1.5 py-0.5 rounded text-xs font-mono '' @ badge_color score,
       children = render_number score @ ''/5'' \<rparr>"

text \<open>The score cells of the trade log's table: one badge per trade, in order.\<close>

definition TradeLog_scores :: "Trade list \<Rightarrow> element list" where
  "TradeLog_scores trades = map (\<lambda>trade. ConfidenceBadge (confluence_score trade)) trades"

text \<open>
  The trade detail page renders the score inside a \<open>strong\<close> element of class
  \<open>text-gray-300\<close>, as \<open>{trade.confluence_score}/5\<close>.
\<close>

definition TradeDetail_confluence :: "int \<Rightarrow> element" where
  "TradeDetail_confluence score =
     \<lparr> className = ''text-gray-300'', children = render_number score @ ''/5'' \<rparr>"

text \<open>What a reader takes as the denominator of a score display: the text after the slash.\<close>

definition shown_denominator :: "string \<Rightarrow> string" where
  "shown_denominator s = drop 1 (dropWhile (\<lambda>ch. ch \<noteq> CHR ''/'') s)"

section \<open>Confluence aggregator\<close>

text \<open>
  The StrategyEvaluator set, the ConfluenceAggregator and the PaperTradeLedger belong to
  the back end, whose code is not among the sources. The definitions of this section
  follow sections 3, 4.3, 4.4, 6 and 7 of the specification.
\<close>

text \<open>Modelled from the spec: the directions of a signal and of a decision.\<close>

datatype direction = BUY | SELL | NONE

text \<open>Modelled from the spec: the four fixed strategy variants, a closed set.\<close>

datatype strategy_variant = Technical | PriceAction | Trend | Scalping

text \<open>
  Modelled from the spec: a StrategySignal, the output of an evaluator (missing from the
  sources). The signal's direction is the field \<open>vote\<close>, which leaves the name
  \<open>direction\<close> to the decision; the indicator snapshot is left out.
\<close>

record StrategySignal =
  strategy_name :: strategy_variant
  vote :: direction
  confidence :: real
  reasons :: "string list"

text \<open>
  Modelled from the spec: the StrategyConfigStore's entry for a strategy,
  \<open>{enabled, parameters}\<close>, and the configuration value passed into a cycle.
\<close>

record 'p StrategyConfig =
  enabled :: bool
  parameters :: 'p

record 'p CycleConfig =
  strategies :: "strategy_variant \<Rightarrow> 'p StrategyConfig"
  minimum_confluence :: nat

text \<open>
  Modelled from the spec: a ConfluenceDecision, the output of the aggregator (missing
  from the sources). Only the direction and the score are modelled.
\<close>

record ConfluenceDecision =
  direction :: direction
  score :: int

text \<open>Modelled from the spec: the strategies enabled in a cycle's configuration.\<close>

definition enabled_strategies :: "'p CycleConfig \<Rightarrow> strategy_variant list" where
  "enabled_strategies cfg =
     filter (\<lambda>s. enabled (strategies cfg s)) [Technical, PriceAction, Trend, Scalping]"

text \<open>
  Modelled from the spec: the strategies that take part in the tally. A strategy that is
  disabled, or whose parameters are out of their valid range, is excluded for the cycle.
  The range test is the parameter \<open>in_range\<close>.
\<close>

definition tallied_strategies ::
  "(strategy_variant \<Rightarrow> 'p \<Rightarrow> bool) \<Rightarrow> 'p CycleConfig \<Rightarrow> strategy_variant list" where
  "tallied_strategies in_range cfg =
     filter (\<lambda>s. in_range s (parameters (strategies cfg s))) (enabled_strategies cfg)"

text \<open>
  Modelled from the spec: the aggregator runs every tallied strategy against the same
  snapshot. The evaluators, missing from the sources, are the parameter \<open>evaluate\<close>.
\<close>

definition signals_of ::
  "(strategy_variant \<Rightarrow> 'p \<Rightarrow> bool) \<Rightarrow> (strategy_variant \<Rightarrow> 'p \<Rightarrow> 'snap \<Rightarrow> StrategySignal)
     \<Rightarrow> 'p CycleConfig \<Rightarrow> 'snap \<Rightarrow> StrategySignal list" where
  "signals_of in_range evaluate cfg snapshot =
     map (\<lambda>s. evaluate s (parameters (strategies cfg s)) snapshot) (tallied_strategies in_range cfg)"

text \<open>
  Modelled from the spec: the aggregator's tally, the vote count of a direction. Only
  BUY and SELL are tallied; NONE abstains.
\<close>

definition votes :: "direction \<Rightarrow> StrategySignal list \<Rightarrow> nat" where
  "votes d signals = length (filter (\<lambda>s. vote s = d) signals)"

text \<open>
  Modelled from the spec: the aggregator's winning direction. It has strictly more votes
  than the other direction; with equal counts there is none.
\<close>

definition winner :: "StrategySignal list \<Rightarrow> direction" where
  "winner signals =
     (if votes SELL signals < votes BUY signals then BUY
      else if votes BUY signals < votes SELL signals then SELL
      else NONE)"

text \<open>
  Modelled from the spec: the ConfluenceAggregator, missing from the sources. The score
  is the vote count of the winning direction (zero when there is none). The decision is
  the winning direction when the score reaches \<open>minimum_confluence\<close>, and NONE
  otherwise; the score is kept either way.
\<close>

definition ConfluenceAggregator :: "nat \<Rightarrow> StrategySignal list \<Rightarrow> ConfluenceDecision" where
  "ConfluenceAggregator minimum signals =
     (let w = winner signals;
          n = (if w = NONE then 0 else votes w signals)
      in \<lparr> direction = (if w = NONE \<or> n < minimum then NONE else w), score = int n \<rparr>)"

text \<open>
  Modelled from the spec: one evaluation cycle with the PaperTradeLedger, missing from
  the sources. The result is the decision and the ledger after the cycle. The ledger
  opens a trade from a decision that has a direction; the model keeps, for each trade
  opened, the decision that seeded it.
\<close>

definition run_cycle ::
  "(strategy_variant \<Rightarrow> 'p \<Rightarrow> bool) \<Rightarrow> (strategy_variant \<Rightarrow> 'p \<Rightarrow> 'snap \<Rightarrow> StrategySignal)
     \<Rightarrow> 'p CycleConfig \<Rightarrow> 'snap \<Rightarrow> ConfluenceDecision list
     \<Rightarrow> ConfluenceDecision \<times> ConfluenceDecision list" where
  "run_cycle in_range evaluate cfg snapshot ledger =
     (let d = ConfluenceAggregator (minimum_confluence cfg) (signals_of in_range evaluate cfg snapshot)
      in (d, if direction d = NONE then ledger else ledger @ [d]))"

section \<open>Results about the chart\<close>

lemma updated_fields:
  "time (updated c t) = time c" "open (updated c t) = open c"
  "close (updated c t) = price t"
  "high (updated c t) = max (high c) (price t)"
  "low (updated c t) = min (low c) (price t)"
  by (simp_all add: updated_def)

lemma updated_consistent:
  assumes "ohlc_consistent c"
  shows "ohlc_consistent (updated c t)"
  using assms unfolding ohlc_consistent_def updated_def by auto

text \<open>
  Claim C8. With a series in place, a tracked last candle \<open>c\<close> and a live tick of price
  \<open>p\<close>, the tick effect stores (and hands to the series) a candle with the time and the
  open of \<open>c\<close>, close \<open>p\<close>, high \<open>max (high c) p\<close> and low \<open>min (low c) p\<close>; if \<open>c\<close> is
  OHLC consistent, so is the stored candle.
\<close>

theorem tick_effect_updates_last_candle:
  assumes "seriesRef refs = Some series" and "lastCandleRef refs = Some c"
  shows "\<exists>u. lastCandleRef (tick_effect (Some tick) refs) = Some u
           \<and> seriesRef (tick_effect (Some tick) refs) = Some (series @ [u])
           \<and> time u = time c \<and> open u = open c \<and> close u = price tick
           \<and> high u = max (high c) (price tick)
           \<and> low u = min (low c) (price tick)
           \<and> (ohlc_consistent c \<longrightarrow> ohlc_consistent u)"
proof -
  let ?u = "updated c tick"
  have stored: "tick_effect (Some tick) refs
      = refs\<lparr> seriesRef := Some (series @ [?u]), lastCandleRef := Some ?u \<rparr>"
    using assms by (simp add: tick_effect_def)
  have "lastCandleRef (tick_effect (Some tick) refs) = Some ?u"
    and "seriesRef (tick_effect (Some tick) refs) = Some (series @ [?u])"
    by (simp_all add: stored)
  moreover have "ohlc_consistent c \<longrightarrow> ohlc_consistent ?u"
    by (simp add: updated_consistent)
  ultimately show ?thesis
    using updated_fields [of c tick] by blast
qed

theorem tick_effect_updates_last_candle_witness:
  "lastCandleRef (tick_effect (Some \<lparr> price = 12, timestamp = ''t'' \<rparr>)
       \<lparr> seriesRef = Some [], lastCandleRef = Some \<lparr> time = 1, open = 10, high = 11, low = 9, close = 10 \<rparr> \<rparr>)
     = Some \<lparr> time = 1, open = 10, high = 12, low = 9, close = 12 \<rparr>
   \<and> ohlc_consistent \<lparr> time = 1, open = 10, high = 11, low = 9, close = 10 \<rparr>
   \<and> ohlc_consistent \<lparr> time = 1, open = 10, high = 12, low = 9, close = 12 \<rparr>"
proof -
  let ?c = "\<lparr> time = 1, open = 10, high = 11, low = 9, close = 10 \<rparr> :: candlestick"
  let ?t = "\<lparr> price = 12, timestamp = ''t'' \<rparr>"
  let ?refs = "\<lparr> seriesRef = Some [], lastCandleRef = Some ?c \<rparr>"
  have ok: "ohlc_consistent ?c" by (simp add: ohlc_consistent_def)
  obtain u where u: "lastCandleRef (tick_effect (Some ?t) ?refs) = Some u"
      "time u = time ?c" "open u = open ?c" "close u = price ?t"
      "high u = max (high ?c) (price ?t)" "low u = min (low ?c) (price ?t)"
      "ohlc_consistent ?c \<longrightarrow> ohlc_consistent u"
    using tick_effect_updates_last_candle [of ?refs "[]" ?c ?t] by auto
  have "u = \<lparr> time = 1, open = 10, high = 12, low = 9, close = 12 \<rparr>"
    using u(2-6) by (cases u) simp
  with u(1) u(7) ok show ?thesis by simp
qed

lemma members_of_new_Set:
  "members_of (fst (new_Set st s)) (snd (new_Set st s)) = s"
  by (simp add: new_Set_def members_of_def)

lemma active_toggleOverlay:
  "active (toggleOverlay key state)
     = (if key \<in> active state then active state - {key} else insert key (active state))"
  by (cases state)
     (auto simp: toggleOverlay_def active_def new_Set_def members_of_def has_def add_def
                 delete_def Let_def)

lemma ensureOverlay_present:
  "key \<in> active state \<Longrightarrow> ensureOverlay key state = state"
  by (cases state) (simp add: ensureOverlay_def active_def has_def)

lemma active_ensureOverlay:
  "active (ensureOverlay key state) = insert key (active state)"
  by (cases state)
     (auto simp: ensureOverlay_def active_def new_Set_def members_of_def has_def add_def Let_def)

text \<open>
  Claim C9. On the active-overlay state, toggling a key twice gives back the same set
  of members; ensuring a key that is already a member returns the very same state
  (same store, same address: no object is created); and ensuring a key twice is the
  same as ensuring it once.
\<close>

theorem toggle_involution_ensure_idempotent:
  "active (toggleOverlay key (toggleOverlay key state)) = active state
   \<and> (key \<in> active state \<longrightarrow> ensureOverlay key state = state)
   \<and> ensureOverlay key (ensureOverlay key state) = ensureOverlay key state"
proof (intro conjI)
  show "active (toggleOverlay key (toggleOverlay key state)) = active state"
    by (auto simp: active_toggleOverlay)
  show "key \<in> active state \<longrightarrow> ensureOverlay key state = state"
    by (simp add: ensureOverlay_present)
  have "key \<in> active (ensureOverlay key state)"
    by (simp add: active_ensureOverlay)
  then show "ensureOverlay key (ensureOverlay key state) = ensureOverlay key state"
    by (rule ensureOverlay_present)
qed

theorem toggle_involution_ensure_idempotent_witness:
  "active (toggleOverlay ''bb'' (toggleOverlay ''bb''
        (\<lparr> cells = [0 \<mapsto> [''ema_9'', ''bb'']], next_addr = 1 \<rparr>, 0))) = {''ema_9'', ''bb''}
   \<and> ''bb'' \<in> active (\<lparr> cells = [0 \<mapsto> [''ema_9'', ''bb'']], next_addr = 1 \<rparr>, 0)
   \<and> ensureOverlay ''bb'' (\<lparr> cells = [0 \<mapsto> [''ema_9'', ''bb'']], next_addr = 1 \<rparr>, 0)
       = (\<lparr> cells = [0 \<mapsto> [''ema_9'', ''bb'']], next_addr = 1 \<rparr>, 0)"
proof -
  let ?state = "(\<lparr> cells = [0 \<mapsto> [''ema_9'', ''bb'']], next_addr = 1 \<rparr>, 0::nat)"
  have a: "active ?state = {''ema_9'', ''bb''}"
    by (simp add: active_def members_of_def)
  then have m: "''bb'' \<in> active ?state" by simp
  from toggle_involution_ensure_idempotent [of "''bb''" ?state] a m
  show ?thesis by simp
qed

section \<open>Results about the overlay lines and the indicator engine\<close>



text \<open>
  The only exception \<open>addLine\<close> can raise comes from a series that is missing
  altogether, never from an entry that is \<open>null\<close> or from a series that is too short.
\<close>

lemma addLine_missing_series:
  "ts \<noteq> [] \<Longrightarrow> addLine ts refs key None col width style = Inl TypeError"
  by (subst addLine_def, subst addLine_loop.simps) simp








section \<open>Results about the WebSocket client\<close>

lemma existing_on: "existing (on c e cb) e = existing c e @ [cb]"
  by (simp add: on_def existing_def)

lemma existing_on_other: "e' \<noteq> e \<Longrightarrow> existing (on c e cb) e' = existing c e'"
  by (simp add: on_def existing_def)

lemma existing_off: "existing (off c e cb) e = filter (\<lambda>x. x \<noteq> cb) (existing c e)"
  by (simp add: off_def existing_def)

lemma listeners_off_other: "e' \<noteq> e \<Longrightarrow> listeners (off c e cb) e' = listeners c e'"
  by (simp add: off_def)

lemma dom_on: "dom (listeners (on c e cb)) = insert e (dom (listeners c))"
  by (simp add: on_def)

text \<open>
  Claim C10. \<open>off event cb\<close> leaves under \<open>event\<close> the former callbacks without the
  occurrences of \<open>cb\<close>, in their order, and changes neither the entry of any other
  event nor the URL; so, for a callback \<open>cb\<close> not registered under \<open>e\<close>, \<open>on\<close>
  followed by \<open>off\<close> gives back the callbacks of \<open>e\<close>. The callbacks of an event are
  what the client itself reads, \<open>listeners.get(e) || []\<close>: an event that had no entry
  has the empty list as its entry afterwards.
\<close>

theorem off_removes_only_the_callback:
  "existing (off c e cb) e = filter (\<lambda>x. x \<noteq> cb) (existing c e)
   \<and> (\<forall>e'. e' \<noteq> e \<longrightarrow> listeners (off c e cb) e' = listeners c e')
   \<and> url (off c e cb) = url c
   \<and> (cb \<notin> set (existing c e) \<longrightarrow> existing (off (on c e cb) e cb) e = existing c e)"
proof (intro conjI allI impI)
  show "existing (off c e cb) e = filter (\<lambda>x. x \<noteq> cb) (existing c e)"
    by (rule existing_off)
  show "listeners (off c e cb) e' = listeners c e'" if "e' \<noteq> e" for e'
    using that by (rule listeners_off_other)
  show "url (off c e cb) = url c"
    by (simp add: off_def)
  show "existing (off (on c e cb) e cb) e = existing c e" if "cb \<notin> set (existing c e)"
  proof -
    have "filter (\<lambda>x. x \<noteq> cb) (existing c e) = existing c e"
      using that by (auto simp: filter_id_conv)
    then show ?thesis
      by (simp add: existing_off existing_on)
  qed
qed

theorem off_removes_only_the_callback_witness:
  "existing (off \<lparr> url = ''ws'', listeners = [''a'' \<mapsto> [''f'', ''g'', ''f''], ''b'' \<mapsto> [''f'']] \<rparr> ''a'' ''f'') ''a''
     = [''g'']
   \<and> listeners (off \<lparr> url = ''ws'', listeners = [''a'' \<mapsto> [''f'', ''g'', ''f''], ''b'' \<mapsto> [''f'']] \<rparr> ''a'' ''f'') ''b''
     = Some [''f'']
   \<and> ''h'' \<notin> set (existing \<lparr> url = ''ws'', listeners = [''a'' \<mapsto> [''f'', ''g'', ''f''], ''b'' \<mapsto> [''f'']] \<rparr> ''a'')
   \<and> existing (off (on \<lparr> url = ''ws'', listeners = [''a'' \<mapsto> [''f'', ''g'', ''f''], ''b'' \<mapsto> [''f'']] \<rparr> ''a'' ''h'')
         ''a'' ''h'') ''a''
     = [''f'', ''g'', ''f'']"
proof -
  let ?c = "\<lparr> url = ''ws'', listeners = [''a'' \<mapsto> [''f'', ''g'', ''f''], ''b'' \<mapsto> [''f'']] \<rparr>"
  have ex: "existing ?c ''a'' = [''f'', ''g'', ''f'']" by (simp add: existing_def)
  have other: "''b'' \<noteq> ''a''" by simp
  have fresh: "''h'' \<notin> set (existing ?c ''a'')" by (simp add: existing_def)
  have b: "listeners ?c ''b'' = Some [''f'']" by simp
  from off_removes_only_the_callback [of ?c "''a''" "''f''"] ex other b
  have 1: "existing (off ?c ''a'' ''f'') ''a'' = [''g'']"
    and 2: "listeners (off ?c ''a'' ''f'') ''b'' = Some [''f'']" by auto
  from off_removes_only_the_callback [of ?c "''a''" "''h''"] fresh ex
  have 3: "existing (off (on ?c ''a'' ''h'') ''a'' ''h'') ''a'' = [''f'', ''g'', ''f'']" by simp
  from 1 2 3 fresh show ?thesis by blast
qed

lemma forEach_all_return:
  "\<forall>cb \<in> set cbs. call cb payload = None
     \<Longrightarrow> forEach cbs payload = (map (\<lambda>cb. (cb, payload)) cbs, None)"
  by (induction cbs) auto

lemma onmessage_raises_nothing: "snd (onmessage c parsed) = None"
  by (simp add: onmessage_def split: prod.splits)

lemma onmessage_unparsed: "onmessage c None = ([], None)"
  by (simp add: onmessage_def try_block_def)

lemma onmessage_unnamed:
  assumes "\<forall>name. property msg ''event'' \<noteq> Inr (Some (JStr name))"
  shows "onmessage c (Some msg) = ([], None)"
proof (cases "property msg ''event''")
  case (Inl e)
  then show ?thesis by (simp add: onmessage_def try_block_def)
next
  case (Inr ev)
  with assms have "(case ev of Some (JStr name) \<Rightarrow> existing c name | _ \<Rightarrow> []) = []"
    by (auto split: option.splits json.splits)
  with Inr show ?thesis
    by (simp add: onmessage_def try_block_def split: sum.splits)
qed

lemma onmessage_named:
  assumes "property msg ''event'' = Inr (Some (JStr name))"
    and "property msg ''data'' = Inr payload"
    and "\<forall>cb \<in> set (existing c name). call cb payload = None"
  shows "onmessage c (Some msg) = (map (\<lambda>cb. (cb, payload)) (existing c name), None)"
  using assms by (simp add: onmessage_def try_block_def forEach_all_return)

lemma dom_Dashboard_effect:
  "dom (listeners (Dashboard_effect n c)) = {''price_update'', ''new_trade''} \<union> dom (listeners c)"
  by (auto simp: Dashboard_effect_def dom_on)

lemma dom_Dashboard_runs:
  "0 < n \<Longrightarrow> dom (listeners (Dashboard_runs n (new_WSClient u))) = {''price_update'', ''new_trade''}"
proof (induction n)
  case 0
  then show ?case by simp
next
  case (Suc n)
  show ?case
  proof (cases n)
    case 0
    then show ?thesis by (simp add: dom_Dashboard_effect new_WSClient_def)
  next
    case (Suc m)
    with Suc.IH show ?thesis by (simp add: dom_Dashboard_effect)
  qed
qed

lemma Dashboard_price_update:
  "existing (Dashboard_runs n (new_WSClient u)) ''price_update'' = map (\<lambda>k. Returning (2 * k)) [0..<n]"
  by (induction n)
     (simp_all add: new_WSClient_def existing_def Dashboard_effect_def on_def)

lemma Dashboard_new_trade:
  "existing (Dashboard_runs n (new_WSClient u)) ''new_trade'' = map (\<lambda>k. Returning (2 * k + 1)) [0..<n]"
  by (induction n)
     (simp_all add: new_WSClient_def existing_def Dashboard_effect_def on_def)

lemma Dashboard_callbacks_return:
  "cb \<in> set (existing (Dashboard_runs n (new_WSClient u)) e) \<Longrightarrow> call cb payload = None"
proof (induction n arbitrary: cb)
  case 0
  then show ?case by (simp add: new_WSClient_def existing_def)
next
  case (Suc n)
  let ?c = "Dashboard_runs n (new_WSClient u)"
  have "set (existing (Dashboard_effect n ?c) e)
      \<subseteq> set (existing ?c e) \<union> {Returning (2 * n), Returning (2 * n + 1)}"
    by (auto simp: Dashboard_effect_def on_def existing_def split: if_splits)
  with Suc show ?case by auto
qed

text \<open>
  Claim C6, as amended. After one or more runs of the dashboard's effect on the fresh
  client, the events with listeners are exactly \<open>price_update\<close> and \<open>new_trade\<close>, each
  with one refresh callback per run. The message handler never raises. A message that
  does not parse, and a parsed message whose \<open>event\<close> is not a string, reach no
  callback. A parsed message with event name \<open>name\<close> reaches exactly the callbacks
  registered under \<open>name\<close>, once each, in registration order, with the message's
  \<open>data\<close>, provided none of these callbacks throws; the dashboard's callbacks never do.
\<close>

theorem onmessage_dispatch:
  "onmessage c None = ([], None)
   \<and> snd (onmessage c parsed) = None
   \<and> ((\<forall>name. property msg ''event'' \<noteq> Inr (Some (JStr name)))
        \<longrightarrow> onmessage c (Some msg) = ([], None))
   \<and> (property msg ''event'' = Inr (Some (JStr name)) \<and> property msg ''data'' = Inr payload
        \<and> (\<forall>cb \<in> set (existing c name). call cb payload = None)
        \<longrightarrow> onmessage c (Some msg) = (map (\<lambda>cb. (cb, payload)) (existing c name), None))
   \<and> (0 < n \<longrightarrow> dom (listeners (Dashboard_runs n (new_WSClient u))) = {''price_update'', ''new_trade''})
   \<and> existing (Dashboard_runs n (new_WSClient u)) ''price_update'' = map (\<lambda>k. Returning (2 * k)) [0..<n]
   \<and> existing (Dashboard_runs n (new_WSClient u)) ''new_trade'' = map (\<lambda>k. Returning (2 * k + 1)) [0..<n]
   \<and> (property msg ''event'' = Inr (Some (JStr name)) \<and> property msg ''data'' = Inr payload
        \<longrightarrow> onmessage (Dashboard_runs n (new_WSClient u)) (Some msg)
             = (map (\<lambda>cb. (cb, payload)) (existing (Dashboard_runs n (new_WSClient u)) name), None))"
proof (intro conjI impI)
  show "onmessage c None = ([], None)"
    by (rule onmessage_unparsed)
  show "snd (onmessage c parsed) = None"
    by (rule onmessage_raises_nothing)
  show "onmessage c (Some msg) = ([], None)"
    if "\<forall>name. property msg ''event'' \<noteq> Inr (Some (JStr name))"
    using that by (rule onmessage_unnamed)
  show "onmessage c (Some msg) = (map (\<lambda>cb. (cb, payload)) (existing c name), None)"
    if "property msg ''event'' = Inr (Some (JStr name)) \<and> property msg ''data'' = Inr payload
        \<and> (\<forall>cb \<in> set (existing c name). call cb payload = None)"
    using that by (intro onmessage_named) simp_all
  show "dom (listeners (Dashboard_runs n (new_WSClient u))) = {''price_update'', ''new_trade''}"
    if "0 < n"
    using that by (rule dom_Dashboard_runs)
  show "existing (Dashboard_runs n (new_WSClient u)) ''price_update'' = map (\<lambda>k. Returning (2 * k)) [0..<n]"
    by (rule Dashboard_price_update)
  show "existing (Dashboard_runs n (new_WSClient u)) ''new_trade'' = map (\<lambda>k. Returning (2 * k + 1)) [0..<n]"
    by (rule Dashboard_new_trade)
  show "onmessage (Dashboard_runs n (new_WSClient u)) (Some msg)
      = (map (\<lambda>cb. (cb, payload)) (existing (Dashboard_runs n (new_WSClient u)) name), None)"
    if "property msg ''event'' = Inr (Some (JStr name)) \<and> property msg ''data'' = Inr payload"
    using that Dashboard_callbacks_return [of _ n u name payload]
    by (intro onmessage_named) simp_all
qed

theorem onmessage_dispatch_witness:
  "property (JObj [(''event'', JStr ''new_trade''), (''data'', JNum 7)]) ''event'' = Inr (Some (JStr ''new_trade''))
   \<and> property (JObj [(''event'', JStr ''new_trade''), (''data'', JNum 7)]) ''data'' = Inr (Some (JNum 7))
   \<and> onmessage (Dashboard_runs (Suc 0) (new_WSClient ''ws''))
        (Some (JObj [(''event'', JStr ''new_trade''), (''data'', JNum 7)]))
       = ([(Returning 1, Some (JNum 7))], None)
   \<and> dom (listeners (Dashboard_runs (Suc 0) (new_WSClient ''ws''))) = {''price_update'', ''new_trade''}
   \<and> onmessage (Dashboard_runs (Suc 0) (new_WSClient ''ws'')) (Some (JNum 3)) = ([], None)"
proof -
  let ?msg = "JObj [(''event'', JStr ''new_trade''), (''data'', JNum 7)]"
  let ?c = "Dashboard_runs (Suc 0) (new_WSClient ''ws'')"
  have ev: "property ?msg ''event'' = Inr (Some (JStr ''new_trade''))" by simp
  have da: "property ?msg ''data'' = Inr (Some (JNum 7))" by simp
  have ex: "existing ?c ''new_trade'' = [Returning 1]"
    by (simp add: Dashboard_effect_def on_def existing_def new_WSClient_def)
  have all: "\<forall>cb \<in> set (existing ?c ''new_trade''). call cb (Some (JNum 7)) = None"
    unfolding ex by simp
  have unnamed: "\<forall>name. property (JNum 3) ''event'' \<noteq> Inr (Some (JStr name))" by simp
  from onmessage_dispatch [of ?c undefined ?msg "''new_trade''" "Some (JNum 7)" "Suc 0" "''ws''"] ev da all ex
  have 1: "onmessage ?c (Some ?msg) = ([(Returning 1, Some (JNum 7))], None)"
    and 2: "dom (listeners ?c) = {''price_update'', ''new_trade''}" by simp_all
  from onmessage_dispatch [of ?c undefined "JNum 3"] unnamed
  have 3: "onmessage ?c (Some (JNum 3)) = ([], None)" by blast
  from ev da 1 2 3 show ?thesis by blast
qed

text \<open>
  The claim as stated fails: with two callbacks registered under \<open>new_trade\<close>, the
  first of which throws, a parsed \<open>new_trade\<close> message reaches the first callback only,
  and the handler swallows the exception.
\<close>

theorem throwing_callback_ends_dispatch:
  "existing \<lparr> url = ''ws'', listeners = [''new_trade'' \<mapsto> [Throwing 1, Returning 2]] \<rparr> ''new_trade''
     = [Throwing 1, Returning 2]
   \<and> onmessage \<lparr> url = ''ws'', listeners = [''new_trade'' \<mapsto> [Throwing 1, Returning 2]] \<rparr>
        (Some (JObj [(''event'', JStr ''new_trade''), (''data'', JNum 7)]))
     = ([(Throwing 1, Some (JNum 7))], None)"
  by (simp add: existing_def onmessage_def try_block_def)

section \<open>Results about the score display\<close>

lemma digit_not_slash: "n < 10 \<Longrightarrow> ''0123456789'' ! n \<noteq> CHR ''/''"
proof -
  assume "n < 10"
  then have "''0123456789'' ! n \<in> set ''0123456789''"
    by (intro nth_mem) simp
  then show ?thesis by auto
qed

lemma slash_notin_digits: "CHR ''/'' \<notin> set (digits n)"
proof (induction n rule: digits.induct)
  case (1 n)
  show ?case
  proof (cases "n < 10")
    case True
    then show ?thesis using digit_not_slash [of n] by (subst digits.simps) auto
  next
    case False
    have "n mod 10 < 10" by simp
    then have "''0123456789'' ! (n mod 10) \<noteq> CHR ''/''" by (rule digit_not_slash)
    with False 1 show ?thesis by (subst digits.simps) auto
  qed
qed

lemma slash_notin_render_number: "CHR ''/'' \<notin> set (render_number n)"
  by (simp add: render_number_def slash_notin_digits)

lemma shown_denominator_over_5: "shown_denominator (render_number n @ ''/5'') = ''5''"
proof -
  have "dropWhile (\<lambda>ch. ch \<noteq> CHR ''/'') (render_number n @ ''/5'')
      = dropWhile (\<lambda>ch. ch \<noteq> CHR ''/'') ''/5''"
    by (rule dropWhile_append2) (use slash_notin_render_number [of n] in auto)
  then show ?thesis by (simp add: shown_denominator_def)
qed

text \<open>
  Claim C3, as amended. Both views render the confluence score of a trade as the score
  followed by \<open>/5\<close>: the denominator shown is the constant 5 for every score, in the
  badge of every row of the trade log and on the trade detail page.
\<close>

theorem score_display_has_denominator_5:
  "children (ConfidenceBadge n) = render_number n @ ''/5''
   \<and> children (TradeDetail_confluence n) = render_number n @ ''/5''
   \<and> shown_denominator (children (ConfidenceBadge n)) = ''5''
   \<and> shown_denominator (children (TradeDetail_confluence n)) = ''5''
   \<and> map (\<lambda>e. shown_denominator (children e)) (TradeLog_scores trades)
       = replicate (length trades) ''5''"
proof (intro conjI)
  show "children (ConfidenceBadge n) = render_number n @ ''/5''"
    by (simp add: ConfidenceBadge_def)
  show "children (TradeDetail_confluence n) = render_number n @ ''/5''"
    by (simp add: TradeDetail_confluence_def)
  show "shown_denominator (children (ConfidenceBadge n)) = ''5''"
    by (simp add: ConfidenceBadge_def shown_denominator_over_5)
  show "shown_denominator (children (TradeDetail_confluence n)) = ''5''"
    by (simp add: TradeDetail_confluence_def shown_denominator_over_5)
  show "map (\<lambda>e. shown_denominator (children e)) (TradeLog_scores trades)
      = replicate (length trades) ''5''"
    by (induction trades)
       (simp_all add: TradeLog_scores_def ConfidenceBadge_def shown_denominator_over_5)
qed

text \<open>
  The claim as stated fails: a trade with confluence score 3 is shown as \<open>3/5\<close> in
  the trade log and on the detail page.
\<close>

theorem score_3_is_shown_over_5:
  "map children (TradeLog_scores
      [\<lparr> trade_id = 1, pair = ''BTC/USDT'', side = ''BUY'', entry_price = 100, exit_price = None,
          status = ''OPEN'', pnl = None, pnl_percent = None, strategy = ''Trend'',
          confluence_score = 3, created_at = ''2024-01-01T00:00:00'' \<rparr>]) = [''3/5'']
   \<and> children (TradeDetail_confluence 3) = ''3/5''"
  by (simp add: TradeLog_scores_def ConfidenceBadge_def TradeDetail_confluence_def
        render_number_def digits.simps)

section \<open>Results about the confluence aggregator\<close>

lemma votes_le_length: "votes d signals \<le> length signals"
  by (simp add: votes_def)

lemma length_enabled_strategies: "length (enabled_strategies cfg) \<le> 4"
proof -
  have "length (enabled_strategies cfg) \<le> length [Technical, PriceAction, Trend, Scalping]"
    unfolding enabled_strategies_def by (rule length_filter_le)
  then show ?thesis by simp
qed

lemma length_signals_of:
  "length (signals_of in_range evaluate cfg snapshot) \<le> length (enabled_strategies cfg)"
  by (simp add: signals_of_def tallied_strategies_def)

lemma tie_has_no_winner: "votes BUY signals = votes SELL signals \<Longrightarrow> winner signals = NONE"
  by (simp add: winner_def)

lemma aggregator_tie:
  "votes BUY signals = votes SELL signals \<Longrightarrow> direction (ConfluenceAggregator minimum signals) = NONE"
  by (simp add: ConfluenceAggregator_def tie_has_no_winner)

lemma aggregator_score:
  "score (ConfluenceAggregator minimum signals) \<le> int (length signals)"
  using votes_le_length [of "winner signals" signals]
  by (simp add: ConfluenceAggregator_def Let_def)

text \<open>
  The tally counts votes, so the decision does not depend on the order in which the
  signals are listed: no strategy has priority over another.
\<close>

lemma votes_order_independent:
  assumes "mset signals = mset signals'"
  shows "votes d signals = votes d signals'"
proof -
  have "votes d xs = size (filter_mset (\<lambda>s. vote s = d) (mset xs))" for xs
    by (simp add: votes_def flip: mset_filter)
  with assms show ?thesis by simp
qed

lemma ConfluenceAggregator_order_independent:
  assumes "mset signals = mset signals'"
  shows "ConfluenceAggregator minimum signals = ConfluenceAggregator minimum signals'"
  using votes_order_independent [OF assms]
  by (simp add: ConfluenceAggregator_def winner_def)

text \<open>
  The model reproduces the scenarios of the specification: two BUY votes and two
  abstentions with a minimum confluence of 2 give BUY with score 2; a decision whose
  score 2 is below a minimum confluence of 3 is forced to NONE and keeps its score.
\<close>

lemma scenario_two_votes_reach_minimum:
  "ConfluenceAggregator 2
     [ \<lparr> strategy_name = Technical, vote = BUY, confidence = 1, reasons = [''RSI 25''] \<rparr>,
       \<lparr> strategy_name = PriceAction, vote = NONE, confidence = 0, reasons = [] \<rparr>,
       \<lparr> strategy_name = Trend, vote = BUY, confidence = 1, reasons = [''EMA stack''] \<rparr>,
       \<lparr> strategy_name = Scalping, vote = NONE, confidence = 0, reasons = [] \<rparr> ]
   = \<lparr> direction = BUY, score = 2 \<rparr>"
  by (simp add: ConfluenceAggregator_def winner_def votes_def)

lemma scenario_below_minimum_is_forced_to_NONE:
  "ConfluenceAggregator 3
     [ \<lparr> strategy_name = Technical, vote = BUY, confidence = 1, reasons = [''RSI 25''] \<rparr>,
       \<lparr> strategy_name = PriceAction, vote = SELL, confidence = 1, reasons = [''pin bar''] \<rparr>,
       \<lparr> strategy_name = Trend, vote = BUY, confidence = 1, reasons = [''EMA stack''] \<rparr>,
       \<lparr> strategy_name = Scalping, vote = NONE, confidence = 0, reasons = [] \<rparr> ]
   = \<lparr> direction = NONE, score = 2 \<rparr>"
  by (simp add: ConfluenceAggregator_def winner_def votes_def)

text \<open>
  Claim C1. In an evaluation cycle in which BUY and SELL, the two tallied directions,
  have the same number of votes among the signals of the tallied strategies, the
  decision's direction is NONE and the ledger is left as it was: no trade is opened.
  The statement holds for every list of signals, whatever their order.
\<close>

theorem tied_votes_decide_NONE:
  assumes "votes BUY (signals_of in_range evaluate cfg snapshot)
         = votes SELL (signals_of in_range evaluate cfg snapshot)"
  shows "direction (fst (run_cycle in_range evaluate cfg snapshot ledger)) = NONE
       \<and> snd (run_cycle in_range evaluate cfg snapshot ledger) = ledger"
  using aggregator_tie [OF assms] by (simp add: run_cycle_def Let_def)

theorem tied_votes_decide_NONE_witness:
  "votes BUY (signals_of (\<lambda>s p. True)
       (\<lambda>s p snap. \<lparr> strategy_name = s, vote = (if s = Technical \<or> s = Trend then BUY else SELL),
                     confidence = 1, reasons = [] \<rparr>)
       \<lparr> strategies = (\<lambda>s. \<lparr> enabled = True, parameters = () \<rparr>), minimum_confluence = 2 \<rparr> ()) = 2
   \<and> votes SELL (signals_of (\<lambda>s p. True)
       (\<lambda>s p snap. \<lparr> strategy_name = s, vote = (if s = Technical \<or> s = Trend then BUY else SELL),
                     confidence = 1, reasons = [] \<rparr>)
       \<lparr> strategies = (\<lambda>s. \<lparr> enabled = True, parameters = () \<rparr>), minimum_confluence = 2 \<rparr> ()) = 2
   \<and> direction (fst (run_cycle (\<lambda>s p. True)
       (\<lambda>s p snap. \<lparr> strategy_name = s, vote = (if s = Technical \<or> s = Trend then BUY else SELL),
                     confidence = 1, reasons = [] \<rparr>)
       \<lparr> strategies = (\<lambda>s. \<lparr> enabled = True, parameters = () \<rparr>), minimum_confluence = 2 \<rparr> () [])) = NONE
   \<and> snd (run_cycle (\<lambda>s p. True)
       (\<lambda>s p snap. \<lparr> strategy_name = s, vote = (if s = Technical \<or> s = Trend then BUY else SELL),
                     confidence = 1, reasons = [] \<rparr>)
       \<lparr> strategies = (\<lambda>s. \<lparr> enabled = True, parameters = () \<rparr>), minimum_confluence = 2 \<rparr> () []) = []"
proof -
  let ?ev = "\<lambda>(s :: strategy_variant) (p :: unit) (snap :: unit).
      \<lparr> strategy_name = s, vote = (if s = Technical \<or> s = Trend then BUY else SELL),
        confidence = 1, reasons = [] \<rparr>"
  let ?cfg = "\<lparr> strategies = (\<lambda>s. \<lparr> enabled = True, parameters = () \<rparr>), minimum_confluence = 2 \<rparr>"
  have b: "votes BUY (signals_of (\<lambda>s p. True) ?ev ?cfg ()) = 2"
    by (simp add: votes_def signals_of_def tallied_strategies_def enabled_strategies_def)
  have s: "votes SELL (signals_of (\<lambda>s p. True) ?ev ?cfg ()) = 2"
    by (simp add: votes_def signals_of_def tallied_strategies_def enabled_strategies_def)
  from b s have tie: "votes BUY (signals_of (\<lambda>s p. True) ?ev ?cfg ())
      = votes SELL (signals_of (\<lambda>s p. True) ?ev ?cfg ())" by simp
  from tied_votes_decide_NONE [OF tie, of "[]"] b s show ?thesis by blast
qed

text \<open>
  Claim C2. The score of the decision of a cycle is at least 0 and at most the number
  of strategies enabled in the cycle's configuration, and that number is at most 4.
\<close>

theorem score_bounded_by_enabled_strategies:
  "0 \<le> score (fst (run_cycle in_range evaluate cfg snapshot ledger))
   \<and> score (fst (run_cycle in_range evaluate cfg snapshot ledger)) \<le> int (length (enabled_strategies cfg))
   \<and> length (enabled_strategies cfg) \<le> 4"
proof (intro conjI)
  let ?signals = "signals_of in_range evaluate cfg snapshot"
  have d: "fst (run_cycle in_range evaluate cfg snapshot ledger)
      = ConfluenceAggregator (minimum_confluence cfg) ?signals"
    by (simp add: run_cycle_def Let_def)
  show "0 \<le> score (fst (run_cycle in_range evaluate cfg snapshot ledger))"
    by (simp add: d ConfluenceAggregator_def Let_def)
  have "score (ConfluenceAggregator (minimum_confluence cfg) ?signals) \<le> int (length ?signals)"
    by (rule aggregator_score)
  also have "\<dots> \<le> int (length (enabled_strategies cfg))"
    using length_signals_of [of in_range evaluate cfg snapshot] by simp
  finally show "score (fst (run_cycle in_range evaluate cfg snapshot ledger))
      \<le> int (length (enabled_strategies cfg))"
    by (simp add: d)
  show "length (enabled_strategies cfg) \<le> 4"
    by (rule length_enabled_strategies)
qed

end
